theory Spec2Isabelle
  imports Main "HOL-Library.Word"
begin

unbundle bit_operations_syntax

section \<open>The RK30XX watchdog driver (rk30xx_wdog.c)\<close>

subsection \<open>Register map\<close>

text \<open>
  Register offsets and control bits, as the \<^verbatim>\<open>#define\<close>s of the driver give them.
  \<^verbatim>\<open>bus_write_4\<close> writes a 32-bit value at a 32-bit offset.
\<close>

definition WDOG_CTRL :: "32 word" where
  "WDOG_CTRL = 0x00"

definition WDOG_CTRL_EN :: "32 word" where
  "WDOG_CTRL_EN = push_bit 0 1"

definition WDOG_CTRL_RSP_MODE :: "32 word" where
  "WDOG_CTRL_RSP_MODE = push_bit 1 1"

definition WDOG_CTRL_RST_PULSE :: "32 word" where
  "WDOG_CTRL_RST_PULSE = push_bit 2 4"

definition WDOG_TORR :: "32 word" where
  "WDOG_TORR = 0x04"

definition WDOG_TORR_INTVL_SHIFT :: nat where
  "WDOG_TORR_INTVL_SHIFT = 0"

definition WDOG_CCVR :: "32 word" where
  "WDOG_CCVR = 0x08"

definition WDOG_CRR :: "32 word" where
  "WDOG_CRR = 0x0c"

definition WDOG_STAT :: "32 word" where
  "WDOG_STAT = 0x10"

definition WDOG_EOI :: "32 word" where
  "WDOG_EOI = 0x14"

subsection \<open>The interval table\<close>

text \<open>
  \<^verbatim>\<open>struct rk30_wd_interval { uint64_t milliseconds; unsigned int value; }\<close>.
  The field \<^verbatim>\<open>value\<close> is written \<open>value'\<close>, the plain name being a command of Isabelle.
\<close>

record rk30_wd_interval =
  milliseconds :: "64 word"
  value' :: "32 word"

definition wd_intervals :: "rk30_wd_interval list" where
  "wd_intervals =
    [\<lparr>milliseconds = 2730, value' = 0\<rparr>,
     \<lparr>milliseconds = 5460, value' = 1\<rparr>,
     \<lparr>milliseconds = 10920, value' = 2\<rparr>,
     \<lparr>milliseconds = 21840, value' = 3\<rparr>,
     \<lparr>milliseconds = 43680, value' = 4\<rparr>,
     \<lparr>milliseconds = 87360, value' = 5\<rparr>,
     \<lparr>milliseconds = 174720, value' = 6\<rparr>,
     \<lparr>milliseconds = 349440, value' = 7\<rparr>,
     \<lparr>milliseconds = 698880, value' = 8\<rparr>,
     \<lparr>milliseconds = 1397760, value' = 9\<rparr>,
     \<lparr>milliseconds = 2795520, value' = 10\<rparr>,
     \<lparr>milliseconds = 5591040, value' = 11\<rparr>,
     \<lparr>milliseconds = 11182080, value' = 12\<rparr>,
     \<lparr>milliseconds = 22364160, value' = 13\<rparr>,
     \<lparr>milliseconds = 44728320, value' = 14\<rparr>,
     \<lparr>milliseconds = 89456640, value' = 15\<rparr>,
     \<lparr>milliseconds = 0, value' = 0\<rparr>]"

subsection \<open>Undefined behaviour of the C code, made explicit\<close>

text \<open>
  Two operations of \<^verbatim>\<open>rk30_wd_watchdog_fn\<close> have no defined result in C for some
  operands: reading \<^verbatim>\<open>wd_intervals[i]\<close> past the end of the array, and shifting a
  64-bit value by 64 bits or more. The model returns a fault there instead of a value.
\<close>

datatype wd_fault = Out_of_bounds | Undefined_shift

subsection \<open>The scan of the table\<close>

text \<open>
  Lines 153 to 156:
  \<^verbatim>\<open>i = 0; while (wd_intervals[i].milliseconds && (ms > wd_intervals[i].milliseconds)) i++;\<close>
  The loop has no bound on \<open>i\<close> of its own; it stops on the table's contents only.
  The table is an argument, so that the loop is the loop of the source on any table.
  The result is the index at which the loop stops.
\<close>

function wd_scan :: "rk30_wd_interval list \<Rightarrow> 64 word \<Rightarrow> nat \<Rightarrow> wd_fault + nat" where
  "wd_scan tbl ms i =
     (if length tbl \<le> i then Inl Out_of_bounds
      else if milliseconds (tbl ! i) \<noteq> 0 \<and> ms > milliseconds (tbl ! i)
           then wd_scan tbl ms (Suc i)
           else Inr i)"
  by pat_completeness auto
termination
  by (relation "measure (\<lambda>(tbl, ms, i). length tbl - i)") auto

declare wd_scan.simps [simp del]

text \<open>
  Lines 153 to 157 and 166: the scan from index 0, then the test
  \<^verbatim>\<open>if (wd_intervals[i].milliseconds)\<close> that tells a found entry from the sentinel.
\<close>

definition wd_resolve :: "64 word \<Rightarrow> wd_fault + rk30_wd_interval option" where
  "wd_resolve ms =
     (case wd_scan wd_intervals ms 0 of
        Inl f \<Rightarrow> Inl f
      | Inr i \<Rightarrow>
          if milliseconds (wd_intervals ! i) \<noteq> 0 then Inr (Some (wd_intervals ! i))
          else Inr None)"

subsection \<open>The device, the world and what the driver does to it\<close>

text \<open>
  \<^verbatim>\<open>struct rk30_wd_softc { device_t dev; struct resource *res; struct mtx mtx; }\<close>.
  The device and the memory resource are handles of the kernel; the mutex is the
  softc's own and is named by the softc.
\<close>

record rk30_wd_softc =
  dev :: nat
  res :: nat

text \<open>
  The calls the driver makes into the kernel that act on the kernel or on the device, in
  the order it makes them. A register write carries the resource, the offset and the
  value; an allocation carries the device. \<^verbatim>\<open>device_get_softc\<close> only reads and is
  not recorded.
\<close>

datatype wd_event =
    Bus_alloc_resource_any nat
  | Mtx_init rk30_wd_softc
  | Mtx_lock rk30_wd_softc
  | Mtx_unlock rk30_wd_softc
  | Bus_write_4 nat "32 word" "32 word"
  | Device_printf nat string
  | Printf string
  | Eventhandler_register rk30_wd_softc

text \<open>
  The driver's global \<^verbatim>\<open>static struct rk30_wd_softc *rk30_wd_sc = NULL\<close> and the
  trace of kernel calls made so far.
\<close>

record wd_world =
  rk30_wd_sc :: "rk30_wd_softc option"
  trace :: "wd_event list"

definition emit :: "wd_event \<Rightarrow> wd_world \<Rightarrow> wd_world" where
  "emit e w = w\<lparr>trace := trace w @ [e]\<rparr>"

definition RK30_WDT_WRITE :: "rk30_wd_softc \<Rightarrow> 32 word \<Rightarrow> 32 word \<Rightarrow> wd_world \<Rightarrow> wd_world" where
  "RK30_WDT_WRITE sc r v w = emit (Bus_write_4 (res sc) r v) w"

definition mtx_lock :: "rk30_wd_softc \<Rightarrow> wd_world \<Rightarrow> wd_world" where
  "mtx_lock sc w = emit (Mtx_lock sc) w"

definition mtx_unlock :: "rk30_wd_softc \<Rightarrow> wd_world \<Rightarrow> wd_world" where
  "mtx_unlock sc w = emit (Mtx_unlock sc) w"

definition mtx_init :: "rk30_wd_softc \<Rightarrow> wd_world \<Rightarrow> wd_world" where
  "mtx_init sc w = emit (Mtx_init sc) w"

definition device_printf :: "nat \<Rightarrow> string \<Rightarrow> wd_world \<Rightarrow> wd_world" where
  "device_printf d msg w = emit (Device_printf d msg) w"

definition printf :: "string \<Rightarrow> wd_world \<Rightarrow> wd_world" where
  "printf msg w = emit (Printf msg) w"

definition bus_alloc_resource_any :: "nat \<Rightarrow> wd_world \<Rightarrow> wd_world" where
  "bus_alloc_resource_any d w = emit (Bus_alloc_resource_any d) w"

definition EVENTHANDLER_REGISTER :: "rk30_wd_softc \<Rightarrow> wd_world \<Rightarrow> wd_world" where
  "EVENTHANDLER_REGISTER sc w = emit (Eventhandler_register sc) w"

subsection \<open>rk30_wd_attach\<close>

text \<open>
  \<open>ENXIO\<close> comes from a kernel header that is not part of the driver: it is an
  argument. \<open>alloc\<close> is what \<^verbatim>\<open>bus_alloc_resource_any\<close> returns when it is called,
  \<open>None\<close> for \<^verbatim>\<open>NULL\<close>. \<^verbatim>\<open>device_get_softc(dev)\<close> is the softc of the device, whose \<open>dev\<close>
  and \<open>res\<close> fields the function then fills in. The result is the return value and
  the world after the call.
\<close>

definition rk30_wd_attach :: "int \<Rightarrow> nat \<Rightarrow> nat option \<Rightarrow> wd_world \<Rightarrow> int \<times> wd_world" where
  "rk30_wd_attach ENXIO d alloc w =
     (if rk30_wd_sc w \<noteq> None then (ENXIO, w)
      else case alloc of
        None \<Rightarrow>
          (ENXIO, device_printf d ''could not allocate memory resource\<newline>''
                    (bus_alloc_resource_any d w))
      | Some r \<Rightarrow>
          let sc = \<lparr>dev = d, res = r\<rparr>;
              w1 = (bus_alloc_resource_any d w)\<lparr>rk30_wd_sc := Some sc\<rparr>;
              w2 = mtx_init sc w1;
              w3 = EVENTHANDLER_REGISTER sc w2
          in (0, w3))"

subsection \<open>rk30_wd_watchdog_fn\<close>

text \<open>
  Line 152: \<^verbatim>\<open>ms = ((uint64_t)1 << (cmd & WD_INTERVAL)) / 1000000\<close>. The mask
  \<open>WD_INTERVAL\<close> comes from a kernel header that is not part of the driver: it is an
  argument. A shift of a 64-bit value by 64 or more is undefined in C.
\<close>

definition wd_ms :: "32 word \<Rightarrow> 32 word \<Rightarrow> wd_fault + 64 word" where
  "wd_ms WD_INTERVAL cmd =
     (let n = unat (cmd AND WD_INTERVAL)
      in if 64 \<le> n then Inl Undefined_shift
         else Inr (push_bit n (1 :: 64 word) div 1000000))"

text \<open>
  Lines 153 to 176, with \<open>ms\<close> computed and the mutex held: the scan, then either the
  three writes that arm the watchdog and \<^verbatim>\<open>*error = 0\<close>, or the message, the unlock,
  the write of \<open>0xa\<close> and the early \<^verbatim>\<open>return\<close>, which leaves \<^verbatim>\<open>*error\<close> as it was.
  On the first branch the function goes on to line 181 and unlocks.
  The result is the value of \<^verbatim>\<open>*error\<close> and the world when the function returns.
\<close>

definition wd_arm :: "rk30_wd_softc \<Rightarrow> 64 word \<Rightarrow> int \<Rightarrow> wd_world \<Rightarrow> wd_fault + (int \<times> wd_world)" where
  "wd_arm sc ms error w1 =
     (case wd_resolve ms of
        Inl f \<Rightarrow> Inl f
      | Inr (Some e) \<Rightarrow>
          let w2 = RK30_WDT_WRITE sc WDOG_TORR (push_bit WDOG_TORR_INTVL_SHIFT (value' e)) w1;
              w3 = RK30_WDT_WRITE sc WDOG_CTRL
                     (WDOG_CTRL_EN OR WDOG_CTRL_RSP_MODE OR WDOG_CTRL_RST_PULSE) w2;
              w4 = RK30_WDT_WRITE sc WDOG_CRR 0x76 w3
          in Inr (0, mtx_unlock sc w4)
      | Inr None \<Rightarrow>
          let w2 = device_printf (dev sc) ''Can't arm, timeout is more than 16 sec\<newline>'' w1;
              w3 = mtx_unlock sc w2;
              w4 = RK30_WDT_WRITE sc WDOG_CTRL 0xa w3
          in Inr (error, w4))"

text \<open>
  The whole function: \<open>private\<close> is the softc the handler was registered with, \<open>cmd\<close>
  the command word, \<open>error\<close> the value of \<^verbatim>\<open>*error\<close> when the function is called.
\<close>

definition rk30_wd_watchdog_fn ::
    "32 word \<Rightarrow> rk30_wd_softc \<Rightarrow> 32 word \<Rightarrow> int \<Rightarrow> wd_world \<Rightarrow> wd_fault + (int \<times> wd_world)" where
  "rk30_wd_watchdog_fn WD_INTERVAL private cmd0 error w =
     (let sc = private;
          w1 = mtx_lock sc w;
          cmd = cmd0 AND WD_INTERVAL
      in if cmd > 0 then
           (case wd_ms WD_INTERVAL cmd of
              Inl f \<Rightarrow> Inl f
            | Inr ms \<Rightarrow> wd_arm sc ms error w1)
         else
           Inr (error, mtx_unlock sc (RK30_WDT_WRITE sc WDOG_CTRL 0xa w1)))"

subsection \<open>rk30_wd_watchdog_reset\<close>

text \<open>
  Lines 198 and 199, \<^verbatim>\<open>for (;;) ;\<close>: a loop that never ends. Its value is \<open>None\<close>.
\<close>

partial_function (option) busy_wait :: "unit \<Rightarrow> unit option" where
  "busy_wait u = busy_wait u"

text \<open>
  The result is the world as the function leaves it, and whether the function returns:
  \<open>Some ()\<close> when it does, \<open>None\<close> when it spins for ever.
\<close>

definition rk30_wd_watchdog_reset :: "wd_world \<Rightarrow> wd_world \<times> unit option" where
  "rk30_wd_watchdog_reset w =
     (case rk30_wd_sc w of
        None \<Rightarrow> (printf ''Reset: watchdog device has not been initialized\<newline>'' w, Some ())
      | Some sc \<Rightarrow>
          let w1 = RK30_WDT_WRITE sc WDOG_TORR
                     (push_bit WDOG_TORR_INTVL_SHIFT (value' (wd_intervals ! 0))) w;
              w2 = RK30_WDT_WRITE sc WDOG_CTRL
                     (WDOG_CTRL_EN OR WDOG_CTRL_RSP_MODE OR WDOG_CTRL_RST_PULSE) w1
          in (w2, busy_wait ()))"

subsection \<open>Sequences of calls\<close>

text \<open>
  The entry points of the driver as the kernel calls them, one after the other, on the
  same world. A call that faults or never returns has no successor: the run is \<open>None\<close>.
\<close>

datatype wd_call =
    Attach nat "nat option"
  | Watchdog_fn rk30_wd_softc "32 word" int
  | Watchdog_reset

fun wd_call_step :: "int \<Rightarrow> 32 word \<Rightarrow> wd_call \<Rightarrow> wd_world \<Rightarrow> wd_world option" where
  "wd_call_step ENXIO WD_INTERVAL (Attach d alloc) w =
     Some (snd (rk30_wd_attach ENXIO d alloc w))"
| "wd_call_step ENXIO WD_INTERVAL (Watchdog_fn sc cmd error) w =
     (case rk30_wd_watchdog_fn WD_INTERVAL sc cmd error w of
        Inl f \<Rightarrow> None
      | Inr r \<Rightarrow> Some (snd r))"
| "wd_call_step ENXIO WD_INTERVAL Watchdog_reset w =
     (case snd (rk30_wd_watchdog_reset w) of
        None \<Rightarrow> None
      | Some u \<Rightarrow> Some (fst (rk30_wd_watchdog_reset w)))"

fun wd_run :: "int \<Rightarrow> 32 word \<Rightarrow> wd_call list \<Rightarrow> wd_world \<Rightarrow> wd_world option" where
  "wd_run ENXIO WD_INTERVAL [] w = Some w"
| "wd_run ENXIO WD_INTERVAL (c # cs) w =
     (case wd_call_step ENXIO WD_INTERVAL c w of
        None \<Rightarrow> None
      | Some w' \<Rightarrow> wd_run ENXIO WD_INTERVAL cs w')"

subsection \<open>Observations on a trace\<close>

text \<open>The register writes of a trace, in order: resource, offset, value.\<close>

fun bus_writes :: "wd_event list \<Rightarrow> (nat \<times> 32 word \<times> 32 word) list" where
  "bus_writes [] = []"
| "bus_writes (Bus_write_4 r off v # es) = (r, off, v) # bus_writes es"
| "bus_writes (e # es) = bus_writes es"

text \<open>
  Whether every register write of a trace is made while the mutex of \<open>sc\<close> is held;
  \<open>held\<close> says whether it is held when the trace begins.
\<close>

fun writes_locked :: "rk30_wd_softc \<Rightarrow> bool \<Rightarrow> wd_event list \<Rightarrow> bool" where
  "writes_locked sc held [] = True"
| "writes_locked sc held (Mtx_lock sc' # es) = writes_locked sc (held \<or> sc' = sc) es"
| "writes_locked sc held (Mtx_unlock sc' # es) = writes_locked sc (held \<and> sc' \<noteq> sc) es"
| "writes_locked sc held (Bus_write_4 r off v # es) = (held \<and> writes_locked sc held es)"
| "writes_locked sc held (e # es) = writes_locked sc held es"

subsection \<open>The resolution as the specification words it\<close>

text \<open>
  The specification's table is the sixteen entries before the sentinel, in ascending
  order of threshold, and its \<open>resolve\<close> returns the first entry whose threshold is
  greater than or equal to the request, or nothing.
\<close>

definition spec_resolve :: "64 word \<Rightarrow> rk30_wd_interval option" where
  "spec_resolve ms = find (\<lambda>e. ms \<le> milliseconds e) (take 16 wd_intervals)"

text \<open>The test of line 157 on the result of a scan of any table.\<close>

definition found :: "rk30_wd_interval list \<Rightarrow> wd_fault + nat \<Rightarrow> wd_fault + rk30_wd_interval option" where
  "found tbl r =
     (case r of
        Inl f \<Rightarrow> Inl f
      | Inr i \<Rightarrow> if milliseconds (tbl ! i) \<noteq> 0 then Inr (Some (tbl ! i)) else Inr None)"

section \<open>The table\<close>

lemma wd_intervals_length: "length wd_intervals = 17"
  by (simp add: wd_intervals_def)

lemma wd_intervals_split:
  "wd_intervals = [] @ take 16 wd_intervals @ [\<lparr>milliseconds = 0, value' = 0\<rparr>]"
  by (simp add: wd_intervals_def)

lemma take16_nonzero: "\<forall>e \<in> set (take 16 wd_intervals). milliseconds e \<noteq> 0"
  by (simp add: wd_intervals_def)

lemma take16_sorted: "sorted (map milliseconds (take 16 wd_intervals))"
  by (simp add: wd_intervals_def)

lemma take16_max: "\<forall>e \<in> set (take 16 wd_intervals). milliseconds e \<le> 89456640"
  by (simp add: wd_intervals_def)

lemma wd_intervals_last: "milliseconds (wd_intervals ! 15) = 89456640"
  by (simp add: wd_intervals_def)

section \<open>The scan of a table that ends in a sentinel\<close>

text \<open>
  On any table made of entries with a non-zero threshold followed by an entry with
  threshold zero, the scan started inside the table stops inside it, at the first entry
  that is not below the request, or at the sentinel.
\<close>

lemma wd_scan_sentinel_index:
  assumes nz: "\<forall>e \<in> set es. milliseconds e \<noteq> 0" and z: "milliseconds s = 0"
  shows "wd_scan (pre @ es @ [s]) ms (length pre)
           = Inr (length pre + length (takeWhile (\<lambda>e. milliseconds e < ms) es))"
  using nz
proof (induction es arbitrary: pre)
  case Nil
  show ?case
    by (subst wd_scan.simps) (simp add: z)
next
  case (Cons e es)
  have step: "wd_scan ((pre @ [e]) @ es @ [s]) ms (length (pre @ [e]))
           = Inr (length (pre @ [e]) + length (takeWhile (\<lambda>e. milliseconds e < ms) es))"
    using Cons.prems by (intro Cons.IH) simp
  have nz_e: "milliseconds e \<noteq> 0"
    using Cons.prems by simp
  show ?case
  proof (cases "milliseconds e < ms")
    case True
    have "wd_scan (pre @ (e # es) @ [s]) ms (length pre)
            = wd_scan (pre @ (e # es) @ [s]) ms (Suc (length pre))"
      using True nz_e by (subst wd_scan.simps) simp
    with step True show ?thesis
      by simp
  next
    case False
    have "wd_scan (pre @ (e # es) @ [s]) ms (length pre) = Inr (length pre)"
      using False by (subst wd_scan.simps) simp
    with False show ?thesis
      by simp
  qed
qed

lemma wd_scan_sentinel_found:
  assumes nz: "\<forall>e \<in> set es. milliseconds e \<noteq> 0" and z: "milliseconds s = 0"
  shows "found (pre @ es @ [s]) (wd_scan (pre @ es @ [s]) ms (length pre))
           = Inr (find (\<lambda>e. ms \<le> milliseconds e) es)"
  using nz
proof (induction es arbitrary: pre)
  case Nil
  show ?case
    by (subst wd_scan.simps) (simp add: z found_def)
next
  case (Cons e es)
  have step: "found ((pre @ [e]) @ es @ [s]) (wd_scan ((pre @ [e]) @ es @ [s]) ms (length (pre @ [e])))
           = Inr (find (\<lambda>e. ms \<le> milliseconds e) es)"
    using Cons.prems by (intro Cons.IH) simp
  have nz_e: "milliseconds e \<noteq> 0"
    using Cons.prems by simp
  show ?case
  proof (cases "milliseconds e < ms")
    case True
    have "wd_scan (pre @ (e # es) @ [s]) ms (length pre)
            = wd_scan (pre @ (e # es) @ [s]) ms (Suc (length pre))"
      using True nz_e by (subst wd_scan.simps) simp
    moreover have "\<not> ms \<le> milliseconds e"
      using True by simp
    ultimately show ?thesis
      using step by simp
  next
    case False
    have "wd_scan (pre @ (e # es) @ [s]) ms (length pre) = Inr (length pre)"
      using False by (subst wd_scan.simps) simp
    with False nz_e show ?thesis
      by (simp add: found_def not_less)
  qed
qed

section \<open>The scan of the driver's table\<close>

lemma wd_scan_index:
  "wd_scan wd_intervals ms 0
     = Inr (length (takeWhile (\<lambda>e. milliseconds e < ms) (take 16 wd_intervals)))"
proof -
  have "wd_scan ([] @ take 16 wd_intervals @ [\<lparr>milliseconds = 0, value' = 0\<rparr>]) ms
          (length ([] :: rk30_wd_interval list))
        = Inr (length ([] :: rk30_wd_interval list)
                + length (takeWhile (\<lambda>e. milliseconds e < ms) (take 16 wd_intervals)))"
    by (rule wd_scan_sentinel_index) (simp_all add: take16_nonzero)
  then show ?thesis
    using wd_intervals_split by simp
qed

lemma wd_resolve_spec: "wd_resolve ms = Inr (spec_resolve ms)"
proof -
  have "wd_resolve ms = found wd_intervals (wd_scan wd_intervals ms 0)"
    by (simp add: wd_resolve_def found_def)
  also have "\<dots> = found ([] @ take 16 wd_intervals @ [\<lparr>milliseconds = 0, value' = 0\<rparr>])
        (wd_scan ([] @ take 16 wd_intervals @ [\<lparr>milliseconds = 0, value' = 0\<rparr>]) ms
           (length ([] :: rk30_wd_interval list)))"
    using wd_intervals_split by simp
  also have "\<dots> = Inr (find (\<lambda>e. ms \<le> milliseconds e) (take 16 wd_intervals))"
    by (rule wd_scan_sentinel_found) (simp_all add: take16_nonzero)
  finally show ?thesis
    by (simp add: spec_resolve_def)
qed

lemma wd_resolve_first:
  assumes "wd_resolve ms = Inr (Some e)"
  shows "\<exists>i<16. e = wd_intervals ! i \<and> ms \<le> milliseconds e
           \<and> (\<forall>j<i. milliseconds (wd_intervals ! j) < ms)"
proof -
  from assms have "find (\<lambda>e. ms \<le> milliseconds e) (take 16 wd_intervals) = Some e"
    by (simp add: wd_resolve_spec spec_resolve_def)
  then obtain i where i: "i < length (take 16 wd_intervals)"
      and e: "e = take 16 wd_intervals ! i" "ms \<le> milliseconds (take 16 wd_intervals ! i)"
      and before: "\<forall>j<i. \<not> ms \<le> milliseconds (take 16 wd_intervals ! j)"
    unfolding find_Some_iff by blast
  from i have i16: "i < 16"
    by (simp add: wd_intervals_length)
  with e before show ?thesis
    by (intro exI [of _ i]) (simp add: not_le)
qed

lemma wd_resolve_zero:
  "wd_resolve 0 = Inr (Some (wd_intervals ! 0)) \<and> value' (wd_intervals ! 0) = 0"
  by (simp add: wd_resolve_spec spec_resolve_def wd_intervals_def)

lemma wd_resolve_None_iff: "wd_resolve ms = Inr None \<longleftrightarrow> 89456640 < ms"
proof
  assume "wd_resolve ms = Inr None"
  then have "\<forall>e \<in> set (take 16 wd_intervals). \<not> ms \<le> milliseconds e"
    by (simp add: wd_resolve_spec spec_resolve_def find_None_iff)
  moreover have "take 16 wd_intervals ! 15 \<in> set (take 16 wd_intervals)"
    by (rule nth_mem) (simp add: wd_intervals_length)
  ultimately have "\<not> ms \<le> milliseconds (take 16 wd_intervals ! 15)"
    by blast
  then show "89456640 < ms"
    by (simp add: wd_intervals_last not_le)
next
  assume "89456640 < ms"
  then have "\<forall>e \<in> set (take 16 wd_intervals). \<not> ms \<le> milliseconds e"
    using take16_max by (auto simp: not_le elim: le_less_trans)
  then show "wd_resolve ms = Inr None"
    by (simp add: wd_resolve_spec spec_resolve_def find_None_iff)
qed

lemma wd_resolve_Some:
  assumes "ms \<le> 89456640"
  shows "\<exists>e. wd_resolve ms = Inr (Some e)"
proof (cases "spec_resolve ms")
  case None
  then have "wd_resolve ms = Inr None"
    by (simp add: wd_resolve_spec)
  with assms show ?thesis
    by (simp add: wd_resolve_None_iff)
next
  case (Some e)
  then show ?thesis
    by (simp add: wd_resolve_spec)
qed

lemma wd_resolve_between:
  assumes k: "k < 15"
    and lo: "milliseconds (wd_intervals ! k) < ms"
    and hi: "ms < milliseconds (wd_intervals ! Suc k)"
  shows "wd_resolve ms = Inr (Some (wd_intervals ! Suc k))"
proof -
  let ?es = "take 16 wd_intervals"
  have below: "\<not> ms \<le> milliseconds (?es ! j)" if "j < Suc k" for j
  proof -
    have "map milliseconds ?es ! j \<le> map milliseconds ?es ! k"
      using that k by (intro sorted_nth_mono [OF take16_sorted]) (simp_all add: wd_intervals_length)
    then have "milliseconds (?es ! j) \<le> milliseconds (wd_intervals ! k)"
      using that k by (simp add: wd_intervals_length)
    with lo show ?thesis by simp
  qed
  have "find (\<lambda>e. ms \<le> milliseconds e) ?es = Some (?es ! Suc k)"
    unfolding find_Some_iff
    using k hi below by (intro exI [of _ "Suc k"]) (simp add: wd_intervals_length)
  then show ?thesis
    using k by (simp add: wd_resolve_spec spec_resolve_def)
qed

text \<open>
  C1. For every 64-bit request \<open>ms\<close>, the scan of \<^verbatim>\<open>rk30_wd_watchdog_fn\<close> followed
  by its test of the entry it stopped at yields what the specification's \<open>resolve\<close>
  yields: the first entry, in table order, whose threshold is greater than or equal to
  \<open>ms\<close>, every entry before it being below \<open>ms\<close>. For \<open>ms = 0\<close> it is the entry at
  index 0, whose encoded value is 0. For \<open>ms\<close> strictly between two adjacent thresholds
  it is the higher of the two.
\<close>

theorem scan_first_covering_entry:
  "wd_resolve ms = Inr (spec_resolve ms)
   \<and> (\<forall>e. wd_resolve ms = Inr (Some e) \<longrightarrow>
         (\<exists>i<16. e = wd_intervals ! i \<and> ms \<le> milliseconds e
            \<and> (\<forall>j<i. milliseconds (wd_intervals ! j) < ms)))
   \<and> wd_resolve 0 = Inr (Some (wd_intervals ! 0)) \<and> value' (wd_intervals ! 0) = 0
   \<and> (\<forall>k<15. milliseconds (wd_intervals ! k) < ms \<and> ms < milliseconds (wd_intervals ! Suc k)
         \<longrightarrow> wd_resolve ms = Inr (Some (wd_intervals ! Suc k)))"
  using wd_resolve_spec wd_resolve_first wd_resolve_zero wd_resolve_between by blast

theorem scan_first_covering_entry_witness:
  "(0::nat) < 15 \<and> milliseconds (wd_intervals ! 0) < 3000 \<and> 3000 < milliseconds (wd_intervals ! Suc 0)
   \<and> wd_resolve 3000 = Inr (Some \<lparr>milliseconds = 5460, value' = 1\<rparr>)
   \<and> (\<exists>i<16. \<lparr>milliseconds = 5460, value' = 1\<rparr> = wd_intervals ! i
         \<and> (3000 :: 64 word) \<le> 5460 \<and> (\<forall>j<i. milliseconds (wd_intervals ! j) < 3000))"
proof -
  have k: "(0::nat) < 15"
    by simp
  have lo: "milliseconds (wd_intervals ! 0) < 3000"
    by (simp add: wd_intervals_def)
  have hi: "3000 < milliseconds (wd_intervals ! Suc 0)"
    by (simp add: wd_intervals_def)
  have r: "wd_resolve 3000 = Inr (Some (wd_intervals ! Suc 0))"
    using scan_first_covering_entry [of 3000] k lo hi by blast
  have e: "wd_intervals ! Suc 0 = \<lparr>milliseconds = 5460, value' = 1\<rparr>"
    by (simp add: wd_intervals_def)
  have "\<exists>i<16. \<lparr>milliseconds = 5460, value' = 1\<rparr> = wd_intervals ! i
         \<and> (3000 :: 64 word) \<le> milliseconds \<lparr>milliseconds = 5460, value' = 1\<rparr>
         \<and> (\<forall>j<i. milliseconds (wd_intervals ! j) < 3000)"
    using scan_first_covering_entry [of 3000] r e by simp
  with k lo hi r e show ?thesis
    by simp
qed

text \<open>
  C6. The resolution finds no entry exactly when the request exceeds the largest
  threshold of the table, 89,456,640, which is the threshold at index 15: the request
  89,456,641 finds none, and every request at or below 89,456,640 finds an entry.
\<close>

theorem resolve_none_iff_above_max:
  "(wd_resolve ms = Inr None \<longleftrightarrow> 89456640 < ms)
   \<and> milliseconds (wd_intervals ! 15) = 89456640
   \<and> wd_resolve 89456641 = Inr None
   \<and> (ms \<le> 89456640 \<longrightarrow> (\<exists>e. wd_resolve ms = Inr (Some e)))"
proof -
  have "wd_resolve 89456641 = Inr None"
    by (simp add: wd_resolve_None_iff)
  then show ?thesis
    using wd_resolve_None_iff wd_resolve_Some wd_intervals_last by blast
qed

theorem resolve_none_iff_above_max_witness:
  "(5000 :: 64 word) \<le> 89456640 \<and> (\<exists>e. wd_resolve 5000 = Inr (Some e))
   \<and> wd_resolve 5000 \<noteq> Inr None"
proof -
  have le: "(5000 :: 64 word) \<le> 89456640"
    by simp
  have "\<exists>e. wd_resolve 5000 = Inr (Some e)"
    using resolve_none_iff_above_max [of 5000] le by blast
  moreover have "wd_resolve 5000 \<noteq> Inr None"
    using resolve_none_iff_above_max [of 5000] by simp
  ultimately show ?thesis
    using le by simp
qed

text \<open>
  C10. For every 64-bit request the scan stops without reading past the table: the
  table has 17 entries, the last one (index 16) has threshold 0, and the scan started
  at index 0 stops at an index \<open>i\<close> of the table, having examined the entries 0 to
  \<open>i\<close>, at most 17 of them. The resolution is a value, never a fault, on every input.
\<close>

theorem scan_terminates_within_table:
  "\<exists>i. wd_scan wd_intervals ms 0 = Inr i \<and> Suc i \<le> 17
       \<and> length wd_intervals = 17 \<and> milliseconds (wd_intervals ! 16) = 0
       \<and> (\<exists>r. wd_resolve ms = Inr r)"
proof -
  have "length (takeWhile (\<lambda>e. milliseconds e < ms) (take 16 wd_intervals)) \<le> 16"
    using length_takeWhile_le [of "\<lambda>e. milliseconds e < ms" "take 16 wd_intervals"]
    by (simp add: wd_intervals_length)
  moreover have "milliseconds (wd_intervals ! 16) = 0"
    by (simp add: wd_intervals_def)
  ultimately show ?thesis
    by (simp add: wd_scan_index wd_intervals_length wd_resolve_spec)
qed

section \<open>The handler rk30_wd_watchdog_fn, path by path\<close>

lemmas wd_defs = RK30_WDT_WRITE_def mtx_lock_def mtx_unlock_def mtx_init_def device_printf_def
  printf_def bus_alloc_resource_any_def EVENTHANDLER_REGISTER_def emit_def

lemma ctrl_enable_pattern: "WDOG_CTRL_EN OR WDOG_CTRL_RSP_MODE OR WDOG_CTRL_RST_PULSE = 0x13"
  by (simp add: WDOG_CTRL_EN_def WDOG_CTRL_RSP_MODE_def WDOG_CTRL_RST_PULSE_def)

lemma wd_arm_Some:
  assumes "wd_resolve ms = Inr (Some e)"
  shows "wd_arm sc ms error w
     = Inr (0, w\<lparr>trace := trace w @
          [Bus_write_4 (res sc) WDOG_TORR (value' e),
           Bus_write_4 (res sc) WDOG_CTRL (WDOG_CTRL_EN OR WDOG_CTRL_RSP_MODE OR WDOG_CTRL_RST_PULSE),
           Bus_write_4 (res sc) WDOG_CRR 0x76,
           Mtx_unlock sc]\<rparr>)"
  using assms by (simp add: wd_arm_def wd_defs WDOG_TORR_INTVL_SHIFT_def)

lemma wd_arm_None:
  assumes "wd_resolve ms = Inr None"
  shows "wd_arm sc ms error w
     = Inr (error, w\<lparr>trace := trace w @
          [Device_printf (dev sc) ''Can't arm, timeout is more than 16 sec\<newline>'',
           Mtx_unlock sc,
           Bus_write_4 (res sc) WDOG_CTRL 0xa]\<rparr>)"
  using assms by (simp add: wd_arm_def wd_defs)

lemma watchdog_fn_nonzero:
  assumes "cmd AND WD_INTERVAL \<noteq> 0"
    and "wd_ms WD_INTERVAL (cmd AND WD_INTERVAL) = Inr ms"
  shows "rk30_wd_watchdog_fn WD_INTERVAL sc cmd error w
           = wd_arm sc ms error (w\<lparr>trace := trace w @ [Mtx_lock sc]\<rparr>)"
  using assms by (simp add: rk30_wd_watchdog_fn_def wd_defs word_gt_0)

lemma watchdog_fn_zero:
  assumes "cmd AND WD_INTERVAL = 0"
  shows "rk30_wd_watchdog_fn WD_INTERVAL sc cmd error w
           = Inr (error, w\<lparr>trace := trace w @
               [Mtx_lock sc, Bus_write_4 (res sc) WDOG_CTRL 0xa, Mtx_unlock sc]\<rparr>)"
  using assms by (simp add: rk30_wd_watchdog_fn_def wd_defs)

lemma wd_resolve_10920: "wd_resolve 10920 = Inr (Some \<lparr>milliseconds = 10920, value' = 2\<rparr>)"
  by (simp add: wd_resolve_spec spec_resolve_def wd_intervals_def)

lemma wd_ms_34: "wd_ms 0xff (34 AND 0xff) = Inr 17179"
  by (simp add: wd_ms_def)

lemma wd_ms_47: "wd_ms 0xff (47 AND 0xff) = Inr 140737488"
  by (simp add: wd_ms_def)

lemma bus_writes_append: "bus_writes (xs @ ys) = bus_writes xs @ bus_writes ys"
  by (induction xs rule: bus_writes.induct) simp_all

text \<open>
  C2. For every command word whose masked interval field is non-zero, whose shift is
  defined and whose derived \<open>ms\<close> is at most the largest threshold of the table, the
  handler resolves an entry and its calls are exactly: the lock, the write of the
  entry's encoded value to TORR, the write of enable, response mode and reset pulse
  (together \<open>0x13\<close>) to CTRL, the write of \<open>0x76\<close> to CRR, the unlock; it stores 0
  in \<^verbatim>\<open>*error\<close>. The part of the handler that follows the computation of \<open>ms\<close>,
  run at \<open>ms = 10920\<close>, writes the encoded value 2 to TORR first.
\<close>

theorem arm_three_writes_in_order:
  "(cmd AND WD_INTERVAL \<noteq> 0 \<and> wd_ms WD_INTERVAL (cmd AND WD_INTERVAL) = Inr ms \<and> ms \<le> 89456640
      \<longrightarrow> (\<exists>e. wd_resolve ms = Inr (Some e) \<and>
             rk30_wd_watchdog_fn WD_INTERVAL sc cmd error w
               = Inr (0, w\<lparr>trace := trace w @
                   [Mtx_lock sc,
                    Bus_write_4 (res sc) WDOG_TORR (value' e),
                    Bus_write_4 (res sc) WDOG_CTRL
                      (WDOG_CTRL_EN OR WDOG_CTRL_RSP_MODE OR WDOG_CTRL_RST_PULSE),
                    Bus_write_4 (res sc) WDOG_CRR 0x76,
                    Mtx_unlock sc]\<rparr>)))
   \<and> wd_arm sc 10920 error w
        = Inr (0, w\<lparr>trace := trace w @
            [Bus_write_4 (res sc) WDOG_TORR 2,
             Bus_write_4 (res sc) WDOG_CTRL
               (WDOG_CTRL_EN OR WDOG_CTRL_RSP_MODE OR WDOG_CTRL_RST_PULSE),
             Bus_write_4 (res sc) WDOG_CRR 0x76,
             Mtx_unlock sc]\<rparr>)
   \<and> WDOG_CTRL_EN OR WDOG_CTRL_RSP_MODE OR WDOG_CTRL_RST_PULSE = 0x13"
proof -
  have "\<exists>e. wd_resolve ms = Inr (Some e) \<and>
             rk30_wd_watchdog_fn WD_INTERVAL sc cmd error w
               = Inr (0, w\<lparr>trace := trace w @
                   [Mtx_lock sc,
                    Bus_write_4 (res sc) WDOG_TORR (value' e),
                    Bus_write_4 (res sc) WDOG_CTRL
                      (WDOG_CTRL_EN OR WDOG_CTRL_RSP_MODE OR WDOG_CTRL_RST_PULSE),
                    Bus_write_4 (res sc) WDOG_CRR 0x76,
                    Mtx_unlock sc]\<rparr>)"
    if nz: "cmd AND WD_INTERVAL \<noteq> 0"
      and ms: "wd_ms WD_INTERVAL (cmd AND WD_INTERVAL) = Inr ms"
      and le: "ms \<le> 89456640"
  proof -
    from le obtain e where e: "wd_resolve ms = Inr (Some e)"
      using wd_resolve_Some by blast
    show ?thesis
      using e by (intro exI [of _ e]) (simp add: watchdog_fn_nonzero [OF nz ms] wd_arm_Some [OF e])
  qed
  moreover have "wd_arm sc 10920 error w
        = Inr (0, w\<lparr>trace := trace w @
            [Bus_write_4 (res sc) WDOG_TORR 2,
             Bus_write_4 (res sc) WDOG_CTRL
               (WDOG_CTRL_EN OR WDOG_CTRL_RSP_MODE OR WDOG_CTRL_RST_PULSE),
             Bus_write_4 (res sc) WDOG_CRR 0x76,
             Mtx_unlock sc]\<rparr>)"
    by (simp add: wd_arm_Some [OF wd_resolve_10920])
  ultimately show ?thesis
    using ctrl_enable_pattern by blast
qed

theorem arm_three_writes_in_order_witness:
  "(34 :: 32 word) AND 0xff \<noteq> 0 \<and> wd_ms 0xff (34 AND 0xff) = Inr 17179
   \<and> (17179 :: 64 word) \<le> 89456640
   \<and> rk30_wd_watchdog_fn 0xff \<lparr>dev = 1, res = 7\<rparr> 34 45 \<lparr>rk30_wd_sc = None, trace = []\<rparr>
       = Inr (0, \<lparr>rk30_wd_sc = None, trace =
           [Mtx_lock \<lparr>dev = 1, res = 7\<rparr>,
            Bus_write_4 7 WDOG_TORR 3,
            Bus_write_4 7 WDOG_CTRL 0x13,
            Bus_write_4 7 WDOG_CRR 0x76,
            Mtx_unlock \<lparr>dev = 1, res = 7\<rparr>]\<rparr>)"
proof -
  have nz: "(34 :: 32 word) AND 0xff \<noteq> 0"
    by simp
  have le: "(17179 :: 64 word) \<le> 89456640"
    by simp
  have lo: "milliseconds (wd_intervals ! 2) < 17179" and hi: "17179 < milliseconds (wd_intervals ! Suc 2)"
    by (simp_all add: wd_intervals_def)
  have "wd_resolve 17179 = Inr (Some (wd_intervals ! Suc 2))"
    using lo hi by (intro wd_resolve_between) simp_all
  then have r: "wd_resolve 17179 = Inr (Some \<lparr>milliseconds = 21840, value' = 3\<rparr>)"
    by (simp add: wd_intervals_def)
  from arm_three_writes_in_order [of 34 "0xff" 17179 "\<lparr>dev = 1, res = 7\<rparr>" 45
      "\<lparr>rk30_wd_sc = None, trace = []\<rparr>"] nz wd_ms_34 le r
  show ?thesis
    by simp
qed

text \<open>
  The value 10920 is not itself the quotient of a power of two by 1,000,000
  (\<open>2 ^ 33\<close> gives 8589 and \<open>2 ^ 34\<close> gives 17179), so no command word derives it.
\<close>

lemma unat_shift_ms:
  assumes "n < 64"
  shows "unat (push_bit n (1 :: 64 word) div 1000000) = 2 ^ n div 1000000"
proof -
  have lt: "(2::nat) ^ n < 2 ^ 64"
    using assms by (intro power_strict_increasing) simp_all
  have "unat (push_bit n (1 :: 64 word)) = take_bit 64 (push_bit n (1 :: nat))"
    by (simp add: unsigned_push_bit_eq del: push_bit_of_1)
  also have "\<dots> = take_bit 64 ((2::nat) ^ n)"
    by (simp only: push_bit_of_1)
  also have "\<dots> = 2 ^ n"
    using lt by (rule take_bit_nat_eq_self)
  finally show ?thesis
    by (simp add: unat_div del: push_bit_of_1)
qed

lemma wd_ms_never_10920: "wd_ms WD_INTERVAL cmd \<noteq> Inr 10920"
proof -
  have "push_bit n (1 :: 64 word) div 1000000 \<noteq> 10920" if n: "n < 64" for n
  proof (cases "n \<le> 33")
    case True
    then have "(2::nat) ^ n \<le> 2 ^ 33"
      by (intro power_increasing) simp_all
    then have "(2::nat) ^ n div 1000000 \<le> 2 ^ 33 div 1000000"
      by (rule div_le_mono)
    then have "unat (push_bit n (1 :: 64 word) div 1000000) \<noteq> unat (10920 :: 64 word)"
      unfolding unat_shift_ms [OF n] by simp
    then show ?thesis
      by auto
  next
    case False
    then have "(2::nat) ^ 34 \<le> 2 ^ n"
      by (intro power_increasing) simp_all
    then have "(2::nat) ^ 34 div 1000000 \<le> 2 ^ n div 1000000"
      by (rule div_le_mono)
    then have "unat (push_bit n (1 :: 64 word) div 1000000) \<noteq> unat (10920 :: 64 word)"
      unfolding unat_shift_ms [OF n] by simp
    then show ?thesis
      by auto
  qed
  then show ?thesis
    by (auto simp: wd_ms_def Let_def)
qed

text \<open>
  C3, as stated, at the command 47 with \<^verbatim>\<open>*error\<close> holding 0 on entry: the derived
  \<open>ms\<close> is 140,737,488, above the largest threshold, the disable pattern is written,
  and the handler returns with \<^verbatim>\<open>*error\<close> still 0, the value the arming path stores.
  The handler stores no error code of its own.
\<close>

theorem cannot_arm_error_counterexample:
  "(47 :: 32 word) AND 0xff \<noteq> 0 \<and> wd_ms 0xff (47 AND 0xff) = Inr 140737488
   \<and> (89456640 :: 64 word) < 140737488
   \<and> rk30_wd_watchdog_fn 0xff \<lparr>dev = 1, res = 7\<rparr> 47 0 \<lparr>rk30_wd_sc = None, trace = []\<rparr>
       = Inr (0, \<lparr>rk30_wd_sc = None, trace =
           [Mtx_lock \<lparr>dev = 1, res = 7\<rparr>,
            Device_printf 1 ''Can't arm, timeout is more than 16 sec\<newline>'',
            Mtx_unlock \<lparr>dev = 1, res = 7\<rparr>,
            Bus_write_4 7 WDOG_CTRL 0xa]\<rparr>)"
proof -
  have nz: "(47 :: 32 word) AND 0xff \<noteq> 0"
    by simp
  have gt: "(89456640 :: 64 word) < 140737488"
    by simp
  then have r: "wd_resolve 140737488 = Inr None"
    by (simp add: wd_resolve_None_iff)
  show ?thesis
    using nz gt wd_ms_47 by (simp add: watchdog_fn_nonzero [OF nz wd_ms_47] wd_arm_None [OF r])
qed

text \<open>
  The masked field is the shift count of line 152. Below 64 the shift is defined and
  \<open>ms\<close> is the quotient of \<open>2 ^ field\<close> by 1,000,000; from 64 on the shift has no
  defined result in C, and the handler is a fault.
\<close>

lemma wd_ms_defined:
  assumes "unat (cmd AND WD_INTERVAL) < 64"
  shows "wd_ms WD_INTERVAL (cmd AND WD_INTERVAL)
           = Inr (push_bit (unat (cmd AND WD_INTERVAL)) (1 :: 64 word) div 1000000)"
proof -
  have "(cmd AND WD_INTERVAL) AND WD_INTERVAL = cmd AND WD_INTERVAL"
    by (simp add: and.assoc)
  with assms show ?thesis
    by (simp add: wd_ms_def Let_def del: push_bit_of_1)
qed

lemma watchdog_fn_undefined_shift:
  assumes "64 \<le> unat (cmd AND WD_INTERVAL)"
  shows "rk30_wd_watchdog_fn WD_INTERVAL sc cmd error w = Inl Undefined_shift"
proof -
  have idem: "(cmd AND WD_INTERVAL) AND WD_INTERVAL = cmd AND WD_INTERVAL"
    by (simp add: and.assoc)
  from assms have "cmd AND WD_INTERVAL \<noteq> 0"
    by auto
  with assms idem show ?thesis
    by (simp add: rk30_wd_watchdog_fn_def wd_ms_def Let_def word_gt_0)
qed

lemma cannot_arm_path:
  assumes "cmd AND WD_INTERVAL \<noteq> 0"
    and "wd_ms WD_INTERVAL (cmd AND WD_INTERVAL) = Inr ms"
    and "89456640 < ms"
  shows "\<exists>w'. rk30_wd_watchdog_fn WD_INTERVAL sc cmd error w = Inr (error, w')
           \<and> bus_writes (trace w') = bus_writes (trace w) @ [(res sc, WDOG_CTRL, 0xa)]
           \<and> Device_printf (dev sc) ''Can't arm, timeout is more than 16 sec\<newline>'' \<in> set (trace w')
           \<and> rk30_wd_sc w' = rk30_wd_sc w"
proof -
  from assms(3) have r: "wd_resolve ms = Inr None"
    by (simp add: wd_resolve_None_iff)
  show ?thesis
    by (simp add: watchdog_fn_nonzero [OF assms(1,2)] wd_arm_None [OF r] bus_writes_append)
qed

lemma above_max_field:
  assumes "89456640 < (2::nat) ^ n div 1000000"
  shows "47 \<le> n"
proof (rule ccontr)
  assume "\<not> 47 \<le> n"
  then have "n \<le> 46"
    by simp
  then have "(2::nat) ^ n \<le> 2 ^ 46"
    by (intro power_increasing) simp_all
  then have "(2::nat) ^ n div 1000000 \<le> 2 ^ 46 div 1000000"
    by (rule div_le_mono)
  with assms show False
    by simp
qed

text \<open>
  C3, amended. For every command word whose masked interval field is non-zero and below
  64, so that the shift of line 152 is defined, and whose derived \<open>ms\<close>, the quotient
  of \<open>2 ^ field\<close> by 1,000,000, exceeds the largest threshold of the table (these are
  the fields 47 to 63), the handler prints the can't-arm message, makes exactly one
  register write, the disable pattern \<open>0x0a\<close> to CTRL, and returns with
  \<^verbatim>\<open>*error\<close> as the caller passed it: the caller sees an error exactly when the
  value it passed in was one. Nothing is said of the fields from 64 on.
\<close>

theorem cannot_arm_disables_and_keeps_error:
  assumes nz: "cmd AND WD_INTERVAL \<noteq> 0"
    and defined: "unat (cmd AND WD_INTERVAL) < 64"
    and above: "89456640 < (2::nat) ^ unat (cmd AND WD_INTERVAL) div 1000000"
  shows "47 \<le> unat (cmd AND WD_INTERVAL)
         \<and> (\<exists>w'. rk30_wd_watchdog_fn WD_INTERVAL sc cmd error w = Inr (error, w')
           \<and> bus_writes (trace w') = bus_writes (trace w) @ [(res sc, WDOG_CTRL, 0xa)]
           \<and> Device_printf (dev sc) ''Can't arm, timeout is more than 16 sec\<newline>'' \<in> set (trace w')
           \<and> rk30_wd_sc w' = rk30_wd_sc w)"
proof -
  let ?n = "unat (cmd AND WD_INTERVAL)"
  let ?ms = "push_bit ?n (1 :: 64 word) div 1000000"
  have ms: "wd_ms WD_INTERVAL (cmd AND WD_INTERVAL) = Inr ?ms"
    using defined by (rule wd_ms_defined)
  have "unat (89456640 :: 64 word) < unat ?ms"
    unfolding unat_shift_ms [OF defined] using above by simp
  then have gt: "89456640 < ?ms"
    by (simp only: word_less_nat_alt)
  from above have "47 \<le> ?n"
    by (rule above_max_field)
  with cannot_arm_path [OF nz ms gt] show ?thesis
    by blast
qed

theorem cannot_arm_disables_and_keeps_error_witness:
  "(47 :: 32 word) AND 0xff \<noteq> 0 \<and> unat ((47 :: 32 word) AND 0xff) < 64
   \<and> 89456640 < (2::nat) ^ unat ((47 :: 32 word) AND 0xff) div 1000000
   \<and> (\<exists>w'. rk30_wd_watchdog_fn 0xff \<lparr>dev = 1, res = 7\<rparr> 47 45 \<lparr>rk30_wd_sc = None, trace = []\<rparr>
             = Inr (45, w')
          \<and> bus_writes (trace w') = [(7, WDOG_CTRL, 0xa)])"
proof -
  have nz: "(47 :: 32 word) AND 0xff \<noteq> 0"
    by simp
  have defined: "unat ((47 :: 32 word) AND 0xff) < 64"
    by simp
  have above: "89456640 < (2::nat) ^ unat ((47 :: 32 word) AND 0xff) div 1000000"
    by simp
  from cannot_arm_disables_and_keeps_error [OF nz defined above,
      of "\<lparr>dev = 1, res = 7\<rparr>" 45 "\<lparr>rk30_wd_sc = None, trace = []\<rparr>"]
  show ?thesis
    using nz defined above by auto
qed

text \<open>
  C4. At the command 47 the handler releases the mutex before it writes the disable
  pattern: the register write of this path is made with the mutex not held. The other
  two paths write between the lock and the unlock.
\<close>

theorem cannot_arm_unlocks_before_write:
  "rk30_wd_watchdog_fn 0xff \<lparr>dev = 1, res = 7\<rparr> 47 45 \<lparr>rk30_wd_sc = None, trace = []\<rparr>
       = Inr (45, \<lparr>rk30_wd_sc = None, trace =
           [Mtx_lock \<lparr>dev = 1, res = 7\<rparr>,
            Device_printf 1 ''Can't arm, timeout is more than 16 sec\<newline>'',
            Mtx_unlock \<lparr>dev = 1, res = 7\<rparr>,
            Bus_write_4 7 WDOG_CTRL 0xa]\<rparr>)
   \<and> \<not> writes_locked \<lparr>dev = 1, res = 7\<rparr> False
           [Mtx_lock \<lparr>dev = 1, res = 7\<rparr>,
            Device_printf 1 ''Can't arm, timeout is more than 16 sec\<newline>'',
            Mtx_unlock \<lparr>dev = 1, res = 7\<rparr>,
            Bus_write_4 7 WDOG_CTRL 0xa]"
proof -
  have nz: "(47 :: 32 word) AND 0xff \<noteq> 0"
    by simp
  have "(89456640 :: 64 word) < 140737488"
    by simp
  then have r: "wd_resolve 140737488 = Inr None"
    by (simp add: wd_resolve_None_iff)
  show ?thesis
    by (simp add: watchdog_fn_nonzero [OF nz wd_ms_47] wd_arm_None [OF r])
qed

lemma other_paths_write_under_lock:
  "writes_locked sc False
     [Mtx_lock sc, Bus_write_4 (res sc) WDOG_TORR v, Bus_write_4 (res sc) WDOG_CTRL c,
      Bus_write_4 (res sc) WDOG_CRR 0x76, Mtx_unlock sc]"
  "writes_locked sc False [Mtx_lock sc, Bus_write_4 (res sc) WDOG_CTRL 0xa, Mtx_unlock sc]"
  by simp_all

text \<open>
  C5, as stated, at the command 0 with \<^verbatim>\<open>*error\<close> holding 45 on entry: the handler
  writes the disable pattern and returns with \<^verbatim>\<open>*error\<close> still 45, not 0.
\<close>

theorem disarm_error_counterexample:
  "(0 :: 32 word) AND 0xff = 0
   \<and> rk30_wd_watchdog_fn 0xff \<lparr>dev = 1, res = 7\<rparr> 0 45 \<lparr>rk30_wd_sc = None, trace = []\<rparr>
       = Inr (45, \<lparr>rk30_wd_sc = None, trace =
           [Mtx_lock \<lparr>dev = 1, res = 7\<rparr>,
            Bus_write_4 7 WDOG_CTRL 0xa,
            Mtx_unlock \<lparr>dev = 1, res = 7\<rparr>]\<rparr>)
   \<and> (45 :: int) \<noteq> 0"
  by (simp add: watchdog_fn_zero)

text \<open>
  C5, amended. For every command word whose masked interval field is zero, whatever the
  calls made before, the handler's calls are exactly the lock, the write of the disable
  pattern \<open>0x0a\<close> to CTRL and the unlock, and it returns with \<^verbatim>\<open>*error\<close> as the
  caller passed it: it reports success exactly when the caller passed 0.
\<close>

theorem disarm_writes_disable_only:
  assumes "cmd AND WD_INTERVAL = 0"
  shows "rk30_wd_watchdog_fn WD_INTERVAL sc cmd error w
           = Inr (error, w\<lparr>trace := trace w @
               [Mtx_lock sc, Bus_write_4 (res sc) WDOG_CTRL 0xa, Mtx_unlock sc]\<rparr>)"
  using assms by (rule watchdog_fn_zero)

theorem disarm_writes_disable_only_witness:
  "(0x100 :: 32 word) AND 0xff = 0
   \<and> rk30_wd_watchdog_fn 0xff \<lparr>dev = 1, res = 7\<rparr> 0x100 0
        \<lparr>rk30_wd_sc = None, trace = [Bus_write_4 7 WDOG_CRR 0x76]\<rparr>
       = Inr (0, \<lparr>rk30_wd_sc = None, trace =
           [Bus_write_4 7 WDOG_CRR 0x76,
            Mtx_lock \<lparr>dev = 1, res = 7\<rparr>,
            Bus_write_4 7 WDOG_CTRL 0xa,
            Mtx_unlock \<lparr>dev = 1, res = 7\<rparr>]\<rparr>)"
proof -
  have z: "(0x100 :: 32 word) AND 0xff = 0"
    by simp
  from disarm_writes_disable_only [OF z, of "\<lparr>dev = 1, res = 7\<rparr>" 0
      "\<lparr>rk30_wd_sc = None, trace = [Bus_write_4 7 WDOG_CRR 0x76]\<rparr>"]
  show ?thesis
    using z by simp
qed

section \<open>rk30_wd_attach after a successful attach\<close>

lemma attach_success:
  assumes "ENXIO \<noteq> 0" and "rk30_wd_attach ENXIO d alloc w = (0, w1)"
  shows "\<exists>r. alloc = Some r \<and> rk30_wd_sc w = None \<and> rk30_wd_sc w1 = Some \<lparr>dev = d, res = r\<rparr>"
  using assms
  by (auto simp: rk30_wd_attach_def wd_defs Let_def split: if_splits option.splits)

lemma attach_bound:
  assumes "rk30_wd_sc w = Some sc"
  shows "rk30_wd_attach ENXIO d alloc w = (ENXIO, w)"
  using assms by (simp add: rk30_wd_attach_def)

lemma wd_arm_keeps_binding:
  assumes "wd_arm sc ms error w = Inr (e, w')"
  shows "rk30_wd_sc w' = rk30_wd_sc w"
  using assms
  by (auto simp: wd_arm_def wd_defs Let_def split: sum.splits option.splits)

lemma watchdog_fn_keeps_binding:
  assumes "rk30_wd_watchdog_fn WD_INTERVAL sc cmd error w = Inr (e, w')"
  shows "rk30_wd_sc w' = rk30_wd_sc w"
proof (cases "cmd AND WD_INTERVAL = 0")
  case True
  with assms show ?thesis
    by (auto simp: watchdog_fn_zero)
next
  case False
  with assms show ?thesis
    by (auto simp: rk30_wd_watchdog_fn_def mtx_lock_def emit_def Let_def word_gt_0
        split: sum.splits dest!: wd_arm_keeps_binding)
qed

lemma reset_keeps_binding: "rk30_wd_sc (fst (rk30_wd_watchdog_reset w)) = rk30_wd_sc w"
  by (simp add: rk30_wd_watchdog_reset_def wd_defs Let_def split: option.splits)

lemma step_keeps_binding:
  assumes "rk30_wd_sc w = Some sc" and "wd_call_step ENXIO WD_INTERVAL c w = Some w'"
  shows "rk30_wd_sc w' = Some sc"
proof (cases c)
  case (Attach d alloc)
  with assms show ?thesis
    by (simp add: attach_bound)
next
  case (Watchdog_fn sc' cmd error)
  with assms show ?thesis
    by (auto split: sum.splits dest: watchdog_fn_keeps_binding)
next
  case Watchdog_reset
  with assms show ?thesis
    by (auto simp: reset_keeps_binding split: option.splits)
qed

lemma run_keeps_binding:
  assumes "rk30_wd_sc w = Some sc" and "wd_run ENXIO WD_INTERVAL cs w = Some w'"
  shows "rk30_wd_sc w' = Some sc"
  using assms
proof (induction cs arbitrary: w)
  case Nil
  then show ?case by simp
next
  case (Cons c cs)
  from Cons.prems(2) obtain w1 where s: "wd_call_step ENXIO WD_INTERVAL c w = Some w1"
      and r: "wd_run ENXIO WD_INTERVAL cs w1 = Some w'"
    by (auto split: option.splits)
  from step_keeps_binding [OF Cons.prems(1) s] have "rk30_wd_sc w1 = Some sc" .
  then show ?case
    using r by (rule Cons.IH)
qed

text \<open>
  C7. After an attach that returned 0, and after any further calls of the driver's entry
  points that returned, every attach returns \<open>ENXIO\<close> and leaves the world as it
  found it: no call into the kernel, no register access, and the global softc pointer
  still the one the first attach set.
\<close>

theorem second_attach_fails:
  assumes "ENXIO \<noteq> 0"
    and "rk30_wd_attach ENXIO d alloc w = (0, w1)"
    and "wd_run ENXIO WD_INTERVAL calls w1 = Some w2"
  shows "rk30_wd_attach ENXIO d' alloc' w2 = (ENXIO, w2)
         \<and> rk30_wd_sc w2 = rk30_wd_sc w1 \<and> rk30_wd_sc w1 \<noteq> None"
proof -
  from attach_success [OF assms(1,2)] obtain r
    where b: "rk30_wd_sc w1 = Some \<lparr>dev = d, res = r\<rparr>"
    by blast
  from run_keeps_binding [OF b assms(3)] have b2: "rk30_wd_sc w2 = Some \<lparr>dev = d, res = r\<rparr>" .
  with b show ?thesis
    by (simp add: attach_bound)
qed

theorem second_attach_fails_witness:
  "(6 :: int) \<noteq> 0
   \<and> rk30_wd_attach 6 1 (Some 7) \<lparr>rk30_wd_sc = None, trace = []\<rparr>
       = (0, \<lparr>rk30_wd_sc = Some \<lparr>dev = 1, res = 7\<rparr>,
              trace = [Bus_alloc_resource_any 1, Mtx_init \<lparr>dev = 1, res = 7\<rparr>,
                   Eventhandler_register \<lparr>dev = 1, res = 7\<rparr>]\<rparr>)
   \<and> wd_run 6 0xff [Watchdog_fn \<lparr>dev = 1, res = 7\<rparr> 0 0]
        \<lparr>rk30_wd_sc = Some \<lparr>dev = 1, res = 7\<rparr>,
         trace = [Bus_alloc_resource_any 1, Mtx_init \<lparr>dev = 1, res = 7\<rparr>,
                   Eventhandler_register \<lparr>dev = 1, res = 7\<rparr>]\<rparr>
       = Some \<lparr>rk30_wd_sc = Some \<lparr>dev = 1, res = 7\<rparr>,
          trace = [Bus_alloc_resource_any 1, Mtx_init \<lparr>dev = 1, res = 7\<rparr>,
                   Eventhandler_register \<lparr>dev = 1, res = 7\<rparr>,
                   Mtx_lock \<lparr>dev = 1, res = 7\<rparr>, Bus_write_4 7 WDOG_CTRL 0xa,
                   Mtx_unlock \<lparr>dev = 1, res = 7\<rparr>]\<rparr>
   \<and> rk30_wd_attach 6 2 (Some 9)
        \<lparr>rk30_wd_sc = Some \<lparr>dev = 1, res = 7\<rparr>,
          trace = [Bus_alloc_resource_any 1, Mtx_init \<lparr>dev = 1, res = 7\<rparr>,
                   Eventhandler_register \<lparr>dev = 1, res = 7\<rparr>,
                   Mtx_lock \<lparr>dev = 1, res = 7\<rparr>, Bus_write_4 7 WDOG_CTRL 0xa,
                   Mtx_unlock \<lparr>dev = 1, res = 7\<rparr>]\<rparr>
       = (6, \<lparr>rk30_wd_sc = Some \<lparr>dev = 1, res = 7\<rparr>,
          trace = [Bus_alloc_resource_any 1, Mtx_init \<lparr>dev = 1, res = 7\<rparr>,
                   Eventhandler_register \<lparr>dev = 1, res = 7\<rparr>,
                   Mtx_lock \<lparr>dev = 1, res = 7\<rparr>, Bus_write_4 7 WDOG_CTRL 0xa,
                   Mtx_unlock \<lparr>dev = 1, res = 7\<rparr>]\<rparr>)"
proof -
  have e: "(6 :: int) \<noteq> 0"
    by simp
  have a: "rk30_wd_attach 6 1 (Some 7) \<lparr>rk30_wd_sc = None, trace = []\<rparr>
       = (0, \<lparr>rk30_wd_sc = Some \<lparr>dev = 1, res = 7\<rparr>,
              trace = [Bus_alloc_resource_any 1, Mtx_init \<lparr>dev = 1, res = 7\<rparr>,
                   Eventhandler_register \<lparr>dev = 1, res = 7\<rparr>]\<rparr>)"
    by (simp add: rk30_wd_attach_def wd_defs Let_def)
  have r: "wd_run 6 0xff [Watchdog_fn \<lparr>dev = 1, res = 7\<rparr> 0 0]
        \<lparr>rk30_wd_sc = Some \<lparr>dev = 1, res = 7\<rparr>,
         trace = [Bus_alloc_resource_any 1, Mtx_init \<lparr>dev = 1, res = 7\<rparr>,
                   Eventhandler_register \<lparr>dev = 1, res = 7\<rparr>]\<rparr>
       = Some \<lparr>rk30_wd_sc = Some \<lparr>dev = 1, res = 7\<rparr>,
          trace = [Bus_alloc_resource_any 1, Mtx_init \<lparr>dev = 1, res = 7\<rparr>,
                   Eventhandler_register \<lparr>dev = 1, res = 7\<rparr>,
                   Mtx_lock \<lparr>dev = 1, res = 7\<rparr>, Bus_write_4 7 WDOG_CTRL 0xa,
                   Mtx_unlock \<lparr>dev = 1, res = 7\<rparr>]\<rparr>"
    by (simp add: watchdog_fn_zero)
  from second_attach_fails [OF e a r, of 2 "Some 9"] show ?thesis
    using e a r by simp
qed

section \<open>rk30_wd_watchdog_reset\<close>

lemma busy_wait_None: "busy_wait u = None"
proof (cases "busy_wait u")
  case None
  then show ?thesis .
next
  case (Some y)
  then have False
    by (rule busy_wait.raw_induct [rotated, where P = "\<lambda>_ _. False"])
  then show ?thesis ..
qed

text \<open>
  C8. When no attach has succeeded (the global softc pointer is \<^verbatim>\<open>NULL\<close>), the reset
  prints its message, makes no register write and returns.
\<close>

theorem reset_unbound_returns:
  assumes "rk30_wd_sc w = None"
  shows "rk30_wd_watchdog_reset w
           = (w\<lparr>trace := trace w @ [Printf ''Reset: watchdog device has not been initialized\<newline>'']\<rparr>,
              Some ())
         \<and> bus_writes (trace (fst (rk30_wd_watchdog_reset w))) = bus_writes (trace w)"
  using assms by (simp add: rk30_wd_watchdog_reset_def wd_defs bus_writes_append)

theorem reset_unbound_returns_witness:
  "rk30_wd_sc \<lparr>rk30_wd_sc = None, trace = []\<rparr> = None
   \<and> rk30_wd_watchdog_reset \<lparr>rk30_wd_sc = None, trace = []\<rparr>
       = (\<lparr>rk30_wd_sc = None,
            trace = [Printf ''Reset: watchdog device has not been initialized\<newline>'']\<rparr>, Some ())"
proof -
  have u: "rk30_wd_sc \<lparr>rk30_wd_sc = None, trace = []\<rparr> = None"
    by simp
  from reset_unbound_returns [OF u] show ?thesis
    by simp
qed

text \<open>
  C9. When an attach has succeeded (the global softc pointer is set), the calls of the
  reset are exactly two register writes: the encoded value of the first table entry,
  0, to TORR, then enable, response mode and reset pulse to CTRL. CRR is not written,
  the mutex is not taken, and the function does not return.
\<close>

theorem reset_bound_writes:
  assumes "rk30_wd_sc w = Some sc"
  shows "fst (rk30_wd_watchdog_reset w)
           = w\<lparr>trace := trace w @
               [Bus_write_4 (res sc) WDOG_TORR 0,
                Bus_write_4 (res sc) WDOG_CTRL
                  (WDOG_CTRL_EN OR WDOG_CTRL_RSP_MODE OR WDOG_CTRL_RST_PULSE)]\<rparr>
         \<and> snd (rk30_wd_watchdog_reset w) = None
         \<and> value' (wd_intervals ! 0) = 0"
proof -
  have "value' (wd_intervals ! 0) = 0"
    by (simp add: wd_intervals_def)
  then show ?thesis
    using assms
    by (simp add: rk30_wd_watchdog_reset_def wd_defs WDOG_TORR_INTVL_SHIFT_def busy_wait_None)
qed

theorem reset_bound_writes_witness:
  "rk30_wd_sc \<lparr>rk30_wd_sc = Some \<lparr>dev = 1, res = 7\<rparr>, trace = []\<rparr> = Some \<lparr>dev = 1, res = 7\<rparr>
   \<and> fst (rk30_wd_watchdog_reset \<lparr>rk30_wd_sc = Some \<lparr>dev = 1, res = 7\<rparr>, trace = []\<rparr>)
       = \<lparr>rk30_wd_sc = Some \<lparr>dev = 1, res = 7\<rparr>,
          trace = [Bus_write_4 7 WDOG_TORR 0, Bus_write_4 7 WDOG_CTRL 0x13]\<rparr>
   \<and> snd (rk30_wd_watchdog_reset \<lparr>rk30_wd_sc = Some \<lparr>dev = 1, res = 7\<rparr>, trace = []\<rparr>) = None"
proof -
  have b: "rk30_wd_sc \<lparr>rk30_wd_sc = Some \<lparr>dev = 1, res = 7\<rparr>, trace = []\<rparr> = Some \<lparr>dev = 1, res = 7\<rparr>"
    by simp
  from reset_bound_writes [OF b] show ?thesis
    by (simp add: ctrl_enable_pattern)
qed

end
